theory Spec2Isabelle
  imports Complex_Main "HOL-Library.Word"
begin

section \<open>SceneManager.cpp: the texture registry, the material list and the shader glue\<close>

text \<open>
  The development embeds the member functions of \<open>SceneManager\<close> that precede the
  authored scene (\<open>CreateGLTexture\<close>, \<open>DestroyGLTextures\<close>, \<open>FindTextureID\<close>,
  \<open>FindTextureSlot\<close>, \<open>FindMaterial\<close>, \<open>SetTransformations\<close>, \<open>SetShaderColor\<close>,
  \<open>SetShaderTexture\<close>, \<open>SetTextureUVScale\<close>) and the texture-loading sequence
  \<open>LoadSceneTextures\<close>.

  \<^item> C++ \<open>float\<close> values are only stored, copied and combined by the matrix library;
    they are represented by \<open>real\<close>.
  \<^item> \<open>TEXTURE_INFO::ID\<close> is a \<open>GLuint\<close> (its address is handed to \<open>glGenTextures\<close>),
    hence a 32-bit word; reading it into an \<open>int\<close> is \<open>sint\<close>.
  \<^item> \<open>m_textureIDs\<close> is a C array of 16 entries. An access at an index outside
    \<open>0..15\<close> is undefined behaviour in C++ and is the error value of the model.
\<close>

subsection \<open>Data\<close>

type_synonym vec2 = "real \<times> real"
type_synonym vec3 = "real \<times> real \<times> real"
type_synonym vec4 = "real \<times> real \<times> real \<times> real"

text \<open>A \<open>glm::mat4\<close> is stored column by column: four \<open>vec4\<close> columns.\<close>

type_synonym mat4 = "vec4 \<times> vec4 \<times> vec4 \<times> vec4"

record OBJECT_MATERIAL =
  ambientColor :: vec3
  ambientStrength :: real
  diffuseColor :: vec3
  specularColor :: vec3
  shininess :: real
  tag :: string

record TEXTURE_INFO =
  tag :: string
  ID :: "32 word"

text \<open>What the image decoder \<open>stbi_load\<close> reports about a file it could read.\<close>

record image =
  width :: int
  height :: int
  colorChannels :: int

text \<open>
  The calls received by the GPU texture backend. \<open>GlDeleteTextures\<close> is the backend's
  release operation; the other constructors are the calls the source issues.
\<close>

datatype gl_call =
    GlGenTextures "32 word"
  | GlBindTexture "32 word"
  | GlTexParameteri string string
  | GlTexImage2D string int int string
  | GlGenerateMipmap
  | GlActiveTexture int
  | GlDeleteTextures "32 word"

text \<open>The named uniform writes received by the shader manager.\<close>

datatype uniform_write =
    SetMat4Value string mat4
  | SetIntValue string int
  | SetVec4Value string vec4
  | SetVec2Value string vec2
  | SetSampler2DValue string int

text \<open>
  The state: the data members of \<open>SceneManager\<close> (\<open>m_pShaderManager\<close> is \<open>None\<close> for
  the null pointer and \<open>Some a\<close> for a shader manager at address \<open>a\<close>), followed by the
  histories of the two collaborators the functions talk to.
\<close>

record state =
  m_pShaderManager :: "nat option"
  m_loadedTextures :: int
  m_textureIDs :: "TEXTURE_INFO list"
  m_objectMaterials :: "OBJECT_MATERIAL list"
  gl_log :: "gl_call list"
  shader_log :: "uniform_write list"

text \<open>
  The environment of a run: what \<open>stbi_load\<close> answers for a file name (\<open>None\<close> when
  the file cannot be decoded) and which name \<open>glGenTextures\<close> hands out after a given
  history of backend calls.
\<close>

record env =
  stbi_load :: "string \<Rightarrow> image option"
  glGenTextures_name :: "gl_call list \<Rightarrow> 32 word"

datatype error = ArrayOutOfBounds int

subsection \<open>Names of the uniforms\<close>

definition g_ModelName :: string where "g_ModelName = ''model''"
definition g_ColorValueName :: string where "g_ColorValueName = ''objectColor''"
definition g_TextureValueName :: string where "g_TextureValueName = ''objectTexture''"
definition g_UseTextureName :: string where "g_UseTextureName = ''bUseTexture''"

subsection \<open>The constructor\<close>

definition SceneManager_init :: "nat option \<Rightarrow> state" where
  "SceneManager_init pShaderManager =
     \<lparr> m_pShaderManager = pShaderManager,
       m_loadedTextures = 0,
       m_textureIDs = replicate 16 \<lparr> TEXTURE_INFO.tag = ''/0'', ID = - 1 \<rparr>,
       m_objectMaterials = [],
       gl_log = [],
       shader_log = [] \<rparr>"

subsection \<open>Access to the 16-entry array\<close>

definition slot_read :: "state \<Rightarrow> int \<Rightarrow> error + TEXTURE_INFO" where
  "slot_read s i =
     (if 0 \<le> i \<and> i < 16 then Inr (m_textureIDs s ! nat i) else Inl (ArrayOutOfBounds i))"

text \<open>An assignment to a field of \<open>m_textureIDs[i]\<close>: \<open>f\<close> is the field update.\<close>

definition slot_modify :: "state \<Rightarrow> int \<Rightarrow> (TEXTURE_INFO \<Rightarrow> TEXTURE_INFO) \<Rightarrow> error + state" where
  "slot_modify s i f =
     (if 0 \<le> i \<and> i < 16
      then Inr (s\<lparr> m_textureIDs := (m_textureIDs s)[nat i := f (m_textureIDs s ! nat i)] \<rparr>)
      else Inl (ArrayOutOfBounds i))"

subsection \<open>The GPU texture backend\<close>

definition gl_issue :: "gl_call \<Rightarrow> state \<Rightarrow> state" where
  "gl_issue c s = s\<lparr> gl_log := gl_log s @ [c] \<rparr>"

text \<open>\<open>glGenTextures(1, &x)\<close>: the backend picks a name, the call is recorded.\<close>

definition glGenTextures :: "env \<Rightarrow> state \<Rightarrow> 32 word \<times> state" where
  "glGenTextures env s =
     (let n = glGenTextures_name env (gl_log s) in (n, gl_issue (GlGenTextures n) s))"

subsection \<open>CreateGLTexture\<close>

text \<open>
  The part of \<open>CreateGLTexture\<close> after the upload, shared by the RGB and the RGBA
  branch: mipmaps, unbinding, and the three statements that register the texture.
\<close>

definition CreateGLTexture_register :: "string \<Rightarrow> 32 word \<Rightarrow> state \<Rightarrow> error + (bool \<times> state)" where
  "CreateGLTexture_register tag' textureID s =
     (let s1 = gl_issue GlGenerateMipmap s;
          s2 = gl_issue (GlBindTexture 0) s1
      in case slot_modify s2 (m_loadedTextures s2) (\<lambda>e. e\<lparr> ID := textureID \<rparr>) of
           Inl e \<Rightarrow> Inl e
         | Inr s3 \<Rightarrow>
             (case slot_modify s3 (m_loadedTextures s3) (\<lambda>e. e\<lparr> TEXTURE_INFO.tag := tag' \<rparr>) of
                Inl e \<Rightarrow> Inl e
              | Inr s4 \<Rightarrow> Inr (True, s4\<lparr> m_loadedTextures := m_loadedTextures s4 + 1 \<rparr>)))"

definition CreateGLTexture :: "env \<Rightarrow> string \<Rightarrow> string \<Rightarrow> state \<Rightarrow> error + (bool \<times> state)" where
  "CreateGLTexture env filename tag' s =
     (case stbi_load env filename of
        Some img \<Rightarrow>
          (let (textureID, s1) = glGenTextures env s;
               s2 = gl_issue (GlBindTexture textureID) s1;
               s3 = gl_issue (GlTexParameteri ''GL_TEXTURE_WRAP_S'' ''GL_REPEAT'') s2;
               s4 = gl_issue (GlTexParameteri ''GL_TEXTURE_WRAP_T'' ''GL_REPEAT'') s3;
               s5 = gl_issue (GlTexParameteri ''GL_TEXTURE_MIN_FILTER'' ''GL_LINEAR'') s4;
               s6 = gl_issue (GlTexParameteri ''GL_TEXTURE_MAG_FILTER'' ''GL_LINEAR'') s5
           in if colorChannels img = 3 then
                CreateGLTexture_register tag' textureID
                  (gl_issue (GlTexImage2D ''GL_RGB8'' (width img) (height img) ''GL_RGB'') s6)
              else if colorChannels img = 4 then
                CreateGLTexture_register tag' textureID
                  (gl_issue (GlTexImage2D ''GL_RGBA8'' (width img) (height img) ''GL_RGBA'') s6)
              else Inr (False, s6))
      | None \<Rightarrow> Inr (False, s))"

text \<open>
  A sequence of \<open>CreateGLTexture\<close> calls, one per (file name, tag) pair, with the list
  of their return values.
\<close>

fun CreateGLTexture_all :: "env \<Rightarrow> (string \<times> string) list \<Rightarrow> state \<Rightarrow> error + (bool list \<times> state)" where
  "CreateGLTexture_all env [] s = Inr ([], s)"
| "CreateGLTexture_all env ((filename, tag') # rest) s =
     (case CreateGLTexture env filename tag' s of
        Inl e \<Rightarrow> Inl e
      | Inr (bReturn, s') \<Rightarrow>
          (case CreateGLTexture_all env rest s' of
             Inl e \<Rightarrow> Inl e
           | Inr (rets, s'') \<Rightarrow> Inr (bReturn # rets, s'')))"

subsection \<open>BindGLTextures and DestroyGLTextures\<close>

function BindGLTextures_loop :: "state \<Rightarrow> int \<Rightarrow> error + state" where
  "BindGLTextures_loop s i =
     (if i < m_loadedTextures s then
        (case slot_read s i of
           Inl e \<Rightarrow> Inl e
         | Inr entry \<Rightarrow>
             BindGLTextures_loop
               (gl_issue (GlBindTexture (ID entry)) (gl_issue (GlActiveTexture i) s)) (i + 1))
      else Inr s)"
  by pat_completeness auto
termination
  by (relation "measure (\<lambda>(s, i). nat (m_loadedTextures s - i))") (auto simp: gl_issue_def)

declare BindGLTextures_loop.simps [simp del]

definition BindGLTextures :: "state \<Rightarrow> error + state" where
  "BindGLTextures s = BindGLTextures_loop s 0"

text \<open>
  The loop of \<open>DestroyGLTextures\<close> calls \<open>glGenTextures(1, &m_textureIDs[i].ID)\<close>: the
  backend receives a request for a new name, which is stored over the slot's handle.
\<close>

function DestroyGLTextures_loop :: "env \<Rightarrow> state \<Rightarrow> int \<Rightarrow> error + state" where
  "DestroyGLTextures_loop env s i =
     (if i < m_loadedTextures s then
        (case slot_modify (snd (glGenTextures env s)) i
                (\<lambda>e. e\<lparr> ID := fst (glGenTextures env s) \<rparr>) of
           Inl e \<Rightarrow> Inl e
         | Inr s' \<Rightarrow> DestroyGLTextures_loop env s' (i + 1))
      else Inr s)"
  by pat_completeness auto
termination
  by (relation "measure (\<lambda>(env, s, i). nat (m_loadedTextures s - i))")
     (auto simp: slot_modify_def glGenTextures_def gl_issue_def Let_def split: if_splits)

declare DestroyGLTextures_loop.simps [simp del]

definition DestroyGLTextures :: "env \<Rightarrow> state \<Rightarrow> error + state" where
  "DestroyGLTextures env s = DestroyGLTextures_loop env s 0"

subsection \<open>FindTextureID and FindTextureSlot\<close>

text \<open>
  The \<open>while\<close> loops, with their three local variables as arguments. The loop of
  \<open>FindTextureID\<close> stores the handle, converted to \<open>int\<close>; the loop of \<open>FindTextureSlot\<close>
  stores the index.
\<close>

function FindTextureID_loop :: "state \<Rightarrow> string \<Rightarrow> int \<Rightarrow> int \<Rightarrow> bool \<Rightarrow> error + int" where
  "FindTextureID_loop s tag' textureID index bFound =
     (if index < m_loadedTextures s \<and> bFound = False then
        (case slot_read s index of
           Inl e \<Rightarrow> Inl e
         | Inr entry \<Rightarrow>
             if TEXTURE_INFO.tag entry = tag'
             then FindTextureID_loop s tag' (sint (ID entry)) index True
             else FindTextureID_loop s tag' textureID (index + 1) bFound)
      else Inr textureID)"
  by pat_completeness auto
termination
  by (relation "measure (\<lambda>(s, tag', textureID, index, bFound).
         nat (m_loadedTextures s - index) + (if bFound then 0 else 1))") auto

declare FindTextureID_loop.simps [simp del]

definition FindTextureID :: "state \<Rightarrow> string \<Rightarrow> error + int" where
  "FindTextureID s tag' = FindTextureID_loop s tag' (- 1) 0 False"

function FindTextureSlot_loop :: "state \<Rightarrow> string \<Rightarrow> int \<Rightarrow> int \<Rightarrow> bool \<Rightarrow> error + int" where
  "FindTextureSlot_loop s tag' textureSlot index bFound =
     (if index < m_loadedTextures s \<and> bFound = False then
        (case slot_read s index of
           Inl e \<Rightarrow> Inl e
         | Inr entry \<Rightarrow>
             if TEXTURE_INFO.tag entry = tag'
             then FindTextureSlot_loop s tag' index index True
             else FindTextureSlot_loop s tag' textureSlot (index + 1) bFound)
      else Inr textureSlot)"
  by pat_completeness auto
termination
  by (relation "measure (\<lambda>(s, tag', textureSlot, index, bFound).
         nat (m_loadedTextures s - index) + (if bFound then 0 else 1))") auto

declare FindTextureSlot_loop.simps [simp del]

definition FindTextureSlot :: "state \<Rightarrow> string \<Rightarrow> error + int" where
  "FindTextureSlot s tag' = FindTextureSlot_loop s tag' (- 1) 0 False"

subsection \<open>LoadSceneTextures\<close>

definition scene_textures :: "(string \<times> string) list" where
  "scene_textures =
     [ (''textures/ground.jpg'', ''ground''),
       (''textures/fabric02.jpg'', ''fabric02''),
       (''textures/Onyx1.jpg'', ''Onyx1''),
       (''textures/wood.jpg'', ''wood''),
       (''textures/keyboard.jpg'', ''keyboard''),
       (''textures/laptop.jpg'', ''laptop''),
       (''textures/matrix.jpg'', ''matrix''),
       (''textures/mousepad.jpg'', ''mousepad''),
       (''textures/blackmetal.jpg'', ''black_metal''),
       (''textures/stainless_end.jpg'', ''stainless''),
       (''textures/mouse1.jpg'', ''mouse1''),
       (''textures/glass.jpg'', ''glass''),
       (''textures/wax.png'', ''wax''),
       (''textures/flame.jpg'', ''flame''),
       (''textures/cap2.jpg'', ''cap2''),
       (''textures/pepper.jpg'', ''pepper''),
       (''textures/salt1.jpg'', ''salt1'') ]"

definition LoadSceneTextures :: "env \<Rightarrow> state \<Rightarrow> error + state" where
  "LoadSceneTextures env s =
     (case CreateGLTexture_all env scene_textures s of
        Inl e \<Rightarrow> Inl e
      | Inr (rets, s') \<Rightarrow> BindGLTextures s')"

subsection \<open>FindMaterial\<close>

text \<open>
  The loop copies five fields of the matching entry into the caller's record; the
  caller's \<open>tag\<close> field is not assigned. The result is the returned flag and the
  caller's record after the call.
\<close>

function FindMaterial_loop ::
  "OBJECT_MATERIAL list \<Rightarrow> string \<Rightarrow> OBJECT_MATERIAL \<Rightarrow> nat \<Rightarrow> bool \<Rightarrow> OBJECT_MATERIAL" where
  "FindMaterial_loop mats tag' material index bFound =
     (if index < length mats \<and> bFound = False then
        (if OBJECT_MATERIAL.tag (mats ! index) = tag'
         then FindMaterial_loop mats tag'
                (material\<lparr> ambientColor := ambientColor (mats ! index),
                           ambientStrength := ambientStrength (mats ! index),
                           diffuseColor := diffuseColor (mats ! index),
                           specularColor := specularColor (mats ! index),
                           shininess := shininess (mats ! index) \<rparr>)
                index True
         else FindMaterial_loop mats tag' material (index + 1) bFound)
      else material)"
  by pat_completeness auto
termination
  by (relation "measure (\<lambda>(mats, tag', material, index, bFound).
         (length mats - index) + (if bFound then 0 else 1))") auto

declare FindMaterial_loop.simps [simp del]

definition FindMaterial :: "state \<Rightarrow> string \<Rightarrow> OBJECT_MATERIAL \<Rightarrow> bool \<times> OBJECT_MATERIAL" where
  "FindMaterial s tag' material =
     (if length (m_objectMaterials s) = 0 then (False, material)
      else (True, FindMaterial_loop (m_objectMaterials s) tag' material 0 False))"

text \<open>\<open>m_objectMaterials.push_back(m)\<close>, as \<open>DefineObjectMaterials\<close> does for each material.\<close>

definition push_back_material :: "OBJECT_MATERIAL \<Rightarrow> state \<Rightarrow> state" where
  "push_back_material m s = s\<lparr> m_objectMaterials := m_objectMaterials s @ [m] \<rparr>"

subsection \<open>The matrix library\<close>

text \<open>
  Modelled from the spec: the matrix library \<open>glm\<close> (\<open>glm::scale\<close>, \<open>glm::rotate\<close>,
  \<open>glm::translate\<close>, \<open>glm::radians\<close> and the product of two \<open>glm::mat4\<close>) is not
  part of the source file. The spec names the operations (translation, rotation about
  an axis, scale, degrees converted to radians); they are written here as the library
  defines them for column-major homogeneous matrices, over the reals.
\<close>

definition mat4_identity :: mat4 where
  "mat4_identity = ((1, 0, 0, 0), (0, 1, 0, 0), (0, 0, 1, 0), (0, 0, 0, 1))"

fun v4_add :: "vec4 \<Rightarrow> vec4 \<Rightarrow> vec4" where
  "v4_add (a, b, c, d) (e, f, g, h) = (a + e, b + f, c + g, d + h)"

fun v4_smul :: "vec4 \<Rightarrow> real \<Rightarrow> vec4" where
  "v4_smul (a, b, c, d) k = (a * k, b * k, c * k, d * k)"

fun mat4_mul_vec4 :: "mat4 \<Rightarrow> vec4 \<Rightarrow> vec4" where
  "mat4_mul_vec4 (A0, A1, A2, A3) (x, y, z, w) =
     v4_add (v4_add (v4_add (v4_smul A0 x) (v4_smul A1 y)) (v4_smul A2 z)) (v4_smul A3 w)"

fun mat4_mul :: "mat4 \<Rightarrow> mat4 \<Rightarrow> mat4" where
  "mat4_mul A (B0, B1, B2, B3) =
     (mat4_mul_vec4 A B0, mat4_mul_vec4 A B1, mat4_mul_vec4 A B2, mat4_mul_vec4 A B3)"

definition glm_radians :: "real \<Rightarrow> real" where
  "glm_radians degrees = degrees * (pi / 180)"

fun glm_normalize :: "vec3 \<Rightarrow> vec3" where
  "glm_normalize (x, y, z) =
     (let k = 1 / sqrt (x * x + y * y + z * z) in (x * k, y * k, z * k))"

fun glm_scale_m :: "mat4 \<Rightarrow> vec3 \<Rightarrow> mat4" where
  "glm_scale_m (M0, M1, M2, M3) (x, y, z) = (v4_smul M0 x, v4_smul M1 y, v4_smul M2 z, M3)"

fun glm_translate_m :: "mat4 \<Rightarrow> vec3 \<Rightarrow> mat4" where
  "glm_translate_m (M0, M1, M2, M3) (x, y, z) =
     (M0, M1, M2, v4_add (v4_add (v4_add (v4_smul M0 x) (v4_smul M1 y)) (v4_smul M2 z)) M3)"

fun glm_rotate_m :: "mat4 \<Rightarrow> real \<Rightarrow> vec3 \<Rightarrow> mat4" where
  "glm_rotate_m (M0, M1, M2, M3) angle v =
     (let c = cos angle;
          s = sin angle;
          (ax, ay, az) = glm_normalize v;
          (tx, ty, tz) = ((1 - c) * ax, (1 - c) * ay, (1 - c) * az)
      in ( v4_add (v4_add (v4_smul M0 (c + tx * ax)) (v4_smul M1 (tx * ay + s * az)))
                  (v4_smul M2 (tx * az - s * ay)),
           v4_add (v4_add (v4_smul M0 (ty * ax - s * az)) (v4_smul M1 (c + ty * ay)))
                  (v4_smul M2 (ty * az + s * ax)),
           v4_add (v4_add (v4_smul M0 (tz * ax + s * ay)) (v4_smul M1 (tz * ay - s * ax)))
                  (v4_smul M2 (c + tz * az)),
           M3 ))"

definition glm_scale :: "vec3 \<Rightarrow> mat4" where
  "glm_scale v = glm_scale_m mat4_identity v"

definition glm_rotate :: "real \<Rightarrow> vec3 \<Rightarrow> mat4" where
  "glm_rotate angle v = glm_rotate_m mat4_identity angle v"

definition glm_translate :: "vec3 \<Rightarrow> mat4" where
  "glm_translate v = glm_translate_m mat4_identity v"

subsection \<open>The shader setters\<close>

definition shader_issue :: "uniform_write \<Rightarrow> state \<Rightarrow> state" where
  "shader_issue w s = s\<lparr> shader_log := shader_log s @ [w] \<rparr>"

definition SetTransformations :: "vec3 \<Rightarrow> real \<Rightarrow> real \<Rightarrow> real \<Rightarrow> vec3 \<Rightarrow> state \<Rightarrow> state" where
  "SetTransformations scaleXYZ XrotationDegrees YrotationDegrees ZrotationDegrees positionXYZ s =
     (let scale = glm_scale scaleXYZ;
          rotationX = glm_rotate (glm_radians XrotationDegrees) (1, 0, 0);
          rotationY = glm_rotate (glm_radians YrotationDegrees) (0, 1, 0);
          rotationZ = glm_rotate (glm_radians ZrotationDegrees) (0, 0, 1);
          translation = glm_translate positionXYZ;
          modelView =
            mat4_mul (mat4_mul (mat4_mul (mat4_mul translation rotationX) rotationY) rotationZ)
              scale
      in if m_pShaderManager s \<noteq> None
         then shader_issue (SetMat4Value g_ModelName modelView) s
         else s)"

definition SetShaderColor :: "real \<Rightarrow> real \<Rightarrow> real \<Rightarrow> real \<Rightarrow> state \<Rightarrow> state" where
  "SetShaderColor redColorValue greenColorValue blueColorValue alphaValue s =
     (let currentColor = (redColorValue, greenColorValue, blueColorValue, alphaValue)
      in if m_pShaderManager s \<noteq> None
         then shader_issue (SetVec4Value g_ColorValueName currentColor)
                (shader_issue (SetIntValue g_UseTextureName 0) s)
         else s)"

definition SetShaderTexture :: "string \<Rightarrow> state \<Rightarrow> error + state" where
  "SetShaderTexture textureTag s =
     (if m_pShaderManager s \<noteq> None then
        (let s1 = shader_issue (SetIntValue g_UseTextureName 1) s
         in case FindTextureSlot s1 textureTag of
              Inl e \<Rightarrow> Inl e
            | Inr textureID \<Rightarrow> Inr (shader_issue (SetSampler2DValue g_TextureValueName textureID) s1))
      else Inr s)"

definition SetTextureUVScale :: "real \<Rightarrow> real \<Rightarrow> state \<Rightarrow> state" where
  "SetTextureUVScale u v s =
     (if m_pShaderManager s \<noteq> None
      then shader_issue (SetVec2Value ''UVscale'' (u, v)) s
      else s)"

text \<open>
  The composition as the specification words it:
  translation * rotateX * rotateY * rotateZ * scale, angles given in degrees.
\<close>

definition model_matrix_spec :: "vec3 \<Rightarrow> real \<Rightarrow> real \<Rightarrow> real \<Rightarrow> vec3 \<Rightarrow> mat4" where
  "model_matrix_spec sc xdeg ydeg zdeg pos =
     mat4_mul
       (mat4_mul
          (mat4_mul
             (mat4_mul (glm_translate pos) (glm_rotate (xdeg * pi / 180) (1, 0, 0)))
             (glm_rotate (ydeg * pi / 180) (0, 1, 0)))
          (glm_rotate (zdeg * pi / 180) (0, 0, 1)))
       (glm_scale sc)"

subsection \<open>Concrete environments and states\<close>

text \<open>
  An environment in which every file decodes as a 64 x 64 RGB image, except one missing
  file, one two-channel image and the RGBA image \<open>wax.png\<close>; the backend numbers its
  texture names by the length of its history.
\<close>

definition example_env :: env where
  "example_env =
     \<lparr> stbi_load = (\<lambda>filename.
          if filename = ''textures/missing.jpg'' then None
          else if filename = ''textures/gray2.png''
            then Some \<lparr> width = 8, height = 8, colorChannels = 2 \<rparr>
          else if filename = ''textures/wax.png''
            then Some \<lparr> width = 64, height = 64, colorChannels = 4 \<rparr>
          else Some \<lparr> width = 64, height = 64, colorChannels = 3 \<rparr>),
       glGenTextures_name = (\<lambda>history. of_nat (length history) + 1) \<rparr>"

text \<open>The same decoder with a backend that hands out the name \<open>0xFFFFFFFF\<close>.\<close>

definition all_ones_env :: env where
  "all_ones_env = example_env\<lparr> glGenTextures_name := (\<lambda>history. - 1) \<rparr>"

definition empty_slot :: TEXTURE_INFO where
  "empty_slot = \<lparr> TEXTURE_INFO.tag = ''/0'', ID = - 1 \<rparr>"

definition ground_calls :: "32 word \<Rightarrow> gl_call list" where
  "ground_calls n =
     [ GlGenTextures n, GlBindTexture n,
       GlTexParameteri ''GL_TEXTURE_WRAP_S'' ''GL_REPEAT'',
       GlTexParameteri ''GL_TEXTURE_WRAP_T'' ''GL_REPEAT'',
       GlTexParameteri ''GL_TEXTURE_MIN_FILTER'' ''GL_LINEAR'',
       GlTexParameteri ''GL_TEXTURE_MAG_FILTER'' ''GL_LINEAR'',
       GlTexImage2D ''GL_RGB8'' 64 64 ''GL_RGB'',
       GlGenerateMipmap, GlBindTexture 0 ]"

text \<open>
  The state after the constructor (with the given shader-manager pointer) and one
  successful \<open>CreateGLTexture("textures/ground.jpg", "ground")\<close> that received the
  texture name \<open>n\<close>.
\<close>

definition ground_registered :: "nat option \<Rightarrow> 32 word \<Rightarrow> state" where
  "ground_registered pShaderManager n =
     \<lparr> m_pShaderManager = pShaderManager,
       m_loadedTextures = 1,
       m_textureIDs = \<lparr> TEXTURE_INFO.tag = ''ground'', ID = n \<rparr> # replicate 15 empty_slot,
       m_objectMaterials = [],
       gl_log = ground_calls n,
       shader_log = [] \<rparr>"

definition material_a1 :: OBJECT_MATERIAL where
  "material_a1 =
     \<lparr> ambientColor = (1, 1, 1), ambientStrength = 1, diffuseColor = (1, 1, 1),
       specularColor = (1, 1, 1), shininess = 1, OBJECT_MATERIAL.tag = ''a'' \<rparr>"

definition material_b :: OBJECT_MATERIAL where
  "material_b =
     \<lparr> ambientColor = (2, 2, 2), ambientStrength = 2, diffuseColor = (2, 2, 2),
       specularColor = (2, 2, 2), shininess = 2, OBJECT_MATERIAL.tag = ''b'' \<rparr>"

definition material_a3 :: OBJECT_MATERIAL where
  "material_a3 =
     \<lparr> ambientColor = (3, 3, 3), ambientStrength = 3, diffuseColor = (3, 3, 3),
       specularColor = (3, 3, 3), shininess = 3, OBJECT_MATERIAL.tag = ''a'' \<rparr>"

text \<open>The caller's record before the call, with values of its own.\<close>

definition material_stale :: OBJECT_MATERIAL where
  "material_stale =
     \<lparr> ambientColor = (9, 9, 9), ambientStrength = 9, diffuseColor = (9, 9, 9),
       specularColor = (9, 9, 9), shininess = 9, OBJECT_MATERIAL.tag = ''stale'' \<rparr>"

section \<open>Properties\<close>

subsection \<open>The lookup loops\<close>

lemma FindTextureSlot_loop_found [simp]:
  "FindTextureSlot_loop s tag' textureSlot index True = Inr textureSlot"
  by (simp add: FindTextureSlot_loop.simps [of s tag' textureSlot index True])

lemma FindTextureID_loop_found [simp]:
  "FindTextureID_loop s tag' textureID index True = Inr textureID"
  by (simp add: FindTextureID_loop.simps [of s tag' textureID index True])

lemma FindTextureSlot_loop_exit:
  "\<not> index < m_loadedTextures s \<Longrightarrow>
   FindTextureSlot_loop s tag' textureSlot index False = Inr textureSlot"
  by (simp add: FindTextureSlot_loop.simps [of s tag' textureSlot index False])

lemma FindTextureSlot_loop_step:
  "index < m_loadedTextures s \<Longrightarrow>
   FindTextureSlot_loop s tag' textureSlot index False =
     (case slot_read s index of
        Inl e \<Rightarrow> Inl e
      | Inr entry \<Rightarrow>
          if TEXTURE_INFO.tag entry = tag' then Inr index
          else FindTextureSlot_loop s tag' textureSlot (index + 1) False)"
  by (simp add: FindTextureSlot_loop.simps [of s tag' textureSlot index False]
        split: sum.splits)

lemma FindTextureID_loop_exit:
  "\<not> index < m_loadedTextures s \<Longrightarrow>
   FindTextureID_loop s tag' textureID index False = Inr textureID"
  by (simp add: FindTextureID_loop.simps [of s tag' textureID index False])

lemma FindTextureID_loop_step:
  "index < m_loadedTextures s \<Longrightarrow>
   FindTextureID_loop s tag' textureID index False =
     (case slot_read s index of
        Inl e \<Rightarrow> Inl e
      | Inr entry \<Rightarrow>
          if TEXTURE_INFO.tag entry = tag' then Inr (sint (ID entry))
          else FindTextureID_loop s tag' textureID (index + 1) False)"
  by (simp add: FindTextureID_loop.simps [of s tag' textureID index False]
        split: sum.splits)

text \<open>No entry of the scanned range carries the tag: the initial value comes back.\<close>

lemma FindTextureSlot_loop_absent:
  "0 \<le> index \<Longrightarrow> m_loadedTextures s \<le> 16 \<Longrightarrow>
   (\<forall>j. index \<le> j \<and> j < m_loadedTextures s \<longrightarrow>
        TEXTURE_INFO.tag (m_textureIDs s ! nat j) \<noteq> tag') \<Longrightarrow>
   FindTextureSlot_loop s tag' textureSlot index False = Inr textureSlot"
proof (induction s tag' textureSlot index "False" rule: FindTextureSlot_loop.induct)
  case (1 s tag' textureSlot index)
  show ?case
  proof (cases "index < m_loadedTextures s")
    case False
    then show ?thesis by (rule FindTextureSlot_loop_exit)
  next
    case True
    with "1.prems" have rd: "slot_read s index = Inr (m_textureIDs s ! nat index)"
      by (simp add: slot_read_def)
    from True "1.prems" have ne: "TEXTURE_INFO.tag (m_textureIDs s ! nat index) \<noteq> tag'"
      by simp
    have "FindTextureSlot_loop s tag' textureSlot (index + 1) False = Inr textureSlot"
      using "1.hyps"(2) [OF _ rd ne] True "1.prems" by simp
    with True rd ne show ?thesis by (simp add: FindTextureSlot_loop_step)
  qed
qed

text \<open>Some entry \<open>k\<close> of the scanned range carries the tag: an index up to \<open>k\<close> comes back.\<close>

lemma FindTextureSlot_loop_present:
  "0 \<le> index \<Longrightarrow> index \<le> k \<Longrightarrow> k < m_loadedTextures s \<Longrightarrow> k < 16 \<Longrightarrow>
   TEXTURE_INFO.tag (m_textureIDs s ! nat k) = tag' \<Longrightarrow>
   \<exists>i. FindTextureSlot_loop s tag' textureSlot index False = Inr i \<and> index \<le> i \<and> i \<le> k"
proof (induction s tag' textureSlot index "False" rule: FindTextureSlot_loop.induct)
  case (1 s tag' textureSlot index)
  from "1.prems" have lt: "index < m_loadedTextures s" by simp
  from "1.prems" have rd: "slot_read s index = Inr (m_textureIDs s ! nat index)"
    by (simp add: slot_read_def)
  show ?case
  proof (cases "TEXTURE_INFO.tag (m_textureIDs s ! nat index) = tag'")
    case True
    with lt rd have "FindTextureSlot_loop s tag' textureSlot index False = Inr index"
      by (simp add: FindTextureSlot_loop_step)
    with "1.prems" show ?thesis by simp
  next
    case False
    with "1.prems" have "index \<noteq> k" by auto
    with "1.prems" have "index + 1 \<le> k" by simp
    from "1.hyps"(2) [OF _ rd False] lt "1.prems" this
    obtain i where "FindTextureSlot_loop s tag' textureSlot (index + 1) False = Inr i"
      "index + 1 \<le> i" "i \<le> k" by auto
    with lt rd False show ?thesis by (simp add: FindTextureSlot_loop_step)
  qed
qed

text \<open>A result other than the initial \<open>-1\<close> is the index of a filled slot with the tag.\<close>

lemma FindTextureSlot_loop_range:
  "0 \<le> index \<Longrightarrow> FindTextureSlot_loop s tag' (- 1) index False = Inr i \<Longrightarrow>
   i = - 1 \<or> (index \<le> i \<and> i < m_loadedTextures s \<and> i < 16 \<and>
               TEXTURE_INFO.tag (m_textureIDs s ! nat i) = tag')"
proof (induction s tag' "- 1 :: int" index "False" arbitrary: i rule: FindTextureSlot_loop.induct)
  case (1 s tag' index)
  show ?case
  proof (cases "index < m_loadedTextures s")
    case False
    with "1.prems" show ?thesis by (simp add: FindTextureSlot_loop_exit)
  next
    case lt: True
    show ?thesis
    proof (cases "slot_read s index")
      case (Inl e)
      with lt "1.prems" show ?thesis by (simp add: FindTextureSlot_loop_step)
    next
      case (Inr entry)
      then have entry: "entry = m_textureIDs s ! nat index" and b16: "index < 16"
        by (auto simp: slot_read_def split: if_splits)
      show ?thesis
      proof (cases "TEXTURE_INFO.tag entry = tag'")
        case True
        with lt Inr "1.prems" have "i = index" by (simp add: FindTextureSlot_loop_step)
        with lt b16 True entry show ?thesis by simp
      next
        case False
        with lt Inr "1.prems"
        have "FindTextureSlot_loop s tag' (- 1) (index + 1) False = Inr i"
          by (simp add: FindTextureSlot_loop_step)
        from "1.hyps"(2) [OF _ Inr False _ this] lt "1.prems"
        show ?thesis by auto
      qed
    qed
  qed
qed

text \<open>The two loops run in lock step.\<close>

lemma Find_loops_agree:
  "0 \<le> index \<Longrightarrow>
   FindTextureID_loop s tag' (- 1) index False =
     (case FindTextureSlot_loop s tag' (- 1) index False of
        Inl e \<Rightarrow> Inl e
      | Inr i \<Rightarrow> if i = - 1 then Inr (- 1) else Inr (sint (ID (m_textureIDs s ! nat i))))"
proof (induction s tag' "- 1 :: int" index "False" rule: FindTextureSlot_loop.induct)
  case (1 s tag' index)
  show ?case
  proof (cases "index < m_loadedTextures s")
    case False
    then show ?thesis by (simp add: FindTextureSlot_loop_exit FindTextureID_loop_exit)
  next
    case lt: True
    show ?thesis
    proof (cases "slot_read s index")
      case (Inl e)
      with lt show ?thesis by (simp add: FindTextureSlot_loop_step FindTextureID_loop_step)
    next
      case (Inr entry)
      then have entry: "entry = m_textureIDs s ! nat index"
        by (auto simp: slot_read_def split: if_splits)
      show ?thesis
      proof (cases "TEXTURE_INFO.tag entry = tag'")
        case True
        with lt Inr "1.prems" entry show ?thesis
          by (simp add: FindTextureSlot_loop_step FindTextureID_loop_step)
      next
        case False
        have "FindTextureID_loop s tag' (- 1) (index + 1) False =
          (case FindTextureSlot_loop s tag' (- 1) (index + 1) False of
            Inl e \<Rightarrow> Inl e
          | Inr i \<Rightarrow> if i = - 1 then Inr (- 1) else Inr (sint (ID (m_textureIDs s ! nat i))))"
          using "1.hyps"(2) [OF _ Inr False] lt "1.prems" by simp
        with lt Inr False show ?thesis
          by (simp add: FindTextureSlot_loop_step FindTextureID_loop_step)
      qed
    qed
  qed
qed

lemma FindTextureID_by_slot:
  "FindTextureID s tag' =
     (case FindTextureSlot s tag' of
        Inl e \<Rightarrow> Inl e
      | Inr i \<Rightarrow> if i = - 1 then Inr (- 1) else Inr (sint (ID (m_textureIDs s ! nat i))))"
  unfolding FindTextureID_def FindTextureSlot_def by (rule Find_loops_agree) simp

lemma sint_minus_one_iff: "sint (w :: 32 word) = - 1 \<longleftrightarrow> w = - 1"
proof
  assume "sint w = - 1"
  then have "sint w = sint (- 1 :: 32 word)" by simp
  then show "w = - 1" by (rule signed_word_eqI)
next
  assume "w = - 1"
  then show "sint w = - 1" by simp
qed

subsection \<open>Registration\<close>

lemma CreateGLTexture_register_ok:
  assumes "0 \<le> m_loadedTextures s" "m_loadedTextures s < 16"
  shows "\<exists>s'. CreateGLTexture_register tag' textureID s = Inr (True, s') \<and>
           m_loadedTextures s' = m_loadedTextures s + 1 \<and>
           length (m_textureIDs s') = length (m_textureIDs s) \<and>
           (nat (m_loadedTextures s) < length (m_textureIDs s) \<longrightarrow>
              m_textureIDs s' ! nat (m_loadedTextures s) =
                \<lparr> TEXTURE_INFO.tag = tag', ID = textureID \<rparr>)"
  using assms
  by (simp add: CreateGLTexture_register_def slot_modify_def gl_issue_def Let_def)

lemma CreateGLTexture_register_full:
  "\<not> (0 \<le> m_loadedTextures s \<and> m_loadedTextures s < 16) \<Longrightarrow>
   CreateGLTexture_register tag' textureID s = Inl (ArrayOutOfBounds (m_loadedTextures s))"
  by (simp add: CreateGLTexture_register_def slot_modify_def gl_issue_def Let_def)

text \<open>
  With an image of three or four channels, \<open>CreateGLTexture\<close> is the registration
  step applied to a state with the same counter and the same array.
\<close>

lemma CreateGLTexture_valid_image_unfold:
  assumes "stbi_load env filename = Some img"
      and "colorChannels img = 3 \<or> colorChannels img = 4"
  shows "\<exists>s6 n. CreateGLTexture env filename tag' s = CreateGLTexture_register tag' n s6 \<and>
           m_loadedTextures s6 = m_loadedTextures s \<and> m_textureIDs s6 = m_textureIDs s"
proof -
  define u where "u = (if colorChannels img = 3
      then GlTexImage2D ''GL_RGB8'' (width img) (height img) ''GL_RGB''
      else GlTexImage2D ''GL_RGBA8'' (width img) (height img) ''GL_RGBA'')"
  define s6 where "s6 = gl_issue u
     (gl_issue (GlTexParameteri ''GL_TEXTURE_MAG_FILTER'' ''GL_LINEAR'')
     (gl_issue (GlTexParameteri ''GL_TEXTURE_MIN_FILTER'' ''GL_LINEAR'')
     (gl_issue (GlTexParameteri ''GL_TEXTURE_WRAP_T'' ''GL_REPEAT'')
     (gl_issue (GlTexParameteri ''GL_TEXTURE_WRAP_S'' ''GL_REPEAT'')
     (gl_issue (GlBindTexture (fst (glGenTextures env s))) (snd (glGenTextures env s)))))))"
  have same: "m_loadedTextures s6 = m_loadedTextures s" "m_textureIDs s6 = m_textureIDs s"
    by (simp_all add: s6_def gl_issue_def glGenTextures_def Let_def)
  from assms have "CreateGLTexture env filename tag' s =
      CreateGLTexture_register tag' (fst (glGenTextures env s)) s6"
    by (auto simp: CreateGLTexture_def Let_def s6_def u_def split: prod.splits)
  with same show ?thesis by blast
qed

lemma CreateGLTexture_valid_image:
  assumes "stbi_load env filename = Some img"
      and "colorChannels img = 3 \<or> colorChannels img = 4"
  shows "(0 \<le> m_loadedTextures s \<and> m_loadedTextures s < 16 \<longrightarrow>
            (\<exists>s'. CreateGLTexture env filename tag' s = Inr (True, s'))) \<and>
         (\<not> (0 \<le> m_loadedTextures s \<and> m_loadedTextures s < 16) \<longrightarrow>
            CreateGLTexture env filename tag' s = Inl (ArrayOutOfBounds (m_loadedTextures s)))"
proof -
  from CreateGLTexture_valid_image_unfold [OF assms, of tag' s]
  obtain s6 n where eq: "CreateGLTexture env filename tag' s = CreateGLTexture_register tag' n s6"
    and same: "m_loadedTextures s6 = m_loadedTextures s" by blast
  show ?thesis
  proof (cases "0 \<le> m_loadedTextures s \<and> m_loadedTextures s < 16")
    case True
    with CreateGLTexture_register_ok [of s6 tag' n] same eq show ?thesis by auto
  next
    case False
    with CreateGLTexture_register_full [of s6 tag' n] same eq show ?thesis by auto
  qed
qed

lemma CreateGLTexture_success:
  assumes "CreateGLTexture env filename tag' s = Inr (True, s')"
  shows "0 \<le> m_loadedTextures s \<and> m_loadedTextures s < 16 \<and>
         m_loadedTextures s' = m_loadedTextures s + 1 \<and>
         length (m_textureIDs s') = length (m_textureIDs s) \<and>
         (nat (m_loadedTextures s) < length (m_textureIDs s) \<longrightarrow>
            TEXTURE_INFO.tag (m_textureIDs s' ! nat (m_loadedTextures s)) = tag')"
proof (cases "stbi_load env filename")
  case None
  with assms show ?thesis by (simp add: CreateGLTexture_def)
next
  case (Some img)
  show ?thesis
  proof (cases "colorChannels img = 3 \<or> colorChannels img = 4")
    case False
    with assms Some show ?thesis
      by (simp add: CreateGLTexture_def glGenTextures_def Let_def)
  next
    case True
    from CreateGLTexture_valid_image_unfold [OF Some True, of tag' s]
    obtain s6 n where eq: "CreateGLTexture env filename tag' s = CreateGLTexture_register tag' n s6"
      and same: "m_loadedTextures s6 = m_loadedTextures s" "m_textureIDs s6 = m_textureIDs s"
      by blast
    show ?thesis
    proof (cases "0 \<le> m_loadedTextures s \<and> m_loadedTextures s < 16")
      case True
      with CreateGLTexture_register_ok [of s6 tag' n] same eq assms show ?thesis by auto
    next
      case False
      with CreateGLTexture_register_full [of s6 tag' n] same eq assms show ?thesis by auto
    qed
  qed
qed

lemma CreateGLTexture_failure:
  assumes "CreateGLTexture env filename tag' s = Inr (False, s')"
  shows "m_loadedTextures s' = m_loadedTextures s \<and> m_textureIDs s' = m_textureIDs s"
proof (cases "stbi_load env filename")
  case None
  with assms show ?thesis by (simp add: CreateGLTexture_def)
next
  case (Some img)
  show ?thesis
  proof (cases "colorChannels img = 3 \<or> colorChannels img = 4")
    case False
    with assms Some show ?thesis
      by (auto simp: CreateGLTexture_def glGenTextures_def Let_def gl_issue_def)
  next
    case True
    from CreateGLTexture_valid_image [OF Some True, of s tag'] assms
    show ?thesis by (cases "0 \<le> m_loadedTextures s \<and> m_loadedTextures s < 16") auto
  qed
qed

text \<open>The counter is the number of registrations that returned \<open>true\<close>.\<close>

lemma CreateGLTexture_all_count:
  "CreateGLTexture_all env reqs s = Inr (rets, s') \<Longrightarrow>
   m_loadedTextures s' = m_loadedTextures s + int (count_list rets True) \<and>
   length (m_textureIDs s') = length (m_textureIDs s)"
proof (induction reqs arbitrary: s rets)
  case Nil
  then show ?case by simp
next
  case (Cons r reqs)
  obtain filename tag' where r: "r = (filename, tag')" by (cases r)
  from Cons.prems r obtain b s1 rets1 where
    one: "CreateGLTexture env filename tag' s = Inr (b, s1)" and
    rest: "CreateGLTexture_all env reqs s1 = Inr (rets1, s')" and
    rets: "rets = b # rets1"
    by (auto split: sum.splits prod.splits)
  from Cons.IH [OF rest]
  have ih: "m_loadedTextures s' = m_loadedTextures s1 + int (count_list rets1 True)"
    "length (m_textureIDs s') = length (m_textureIDs s1)" by simp_all
  show ?case
  proof (cases b)
    case True
    with one CreateGLTexture_success [of env filename tag' s s1] ih rets show ?thesis by simp
  next
    case False
    with one CreateGLTexture_failure [of env filename tag' s s1] ih rets show ?thesis by simp
  qed
qed

lemma CreateGLTexture_all_valid:
  "\<forall>r \<in> set reqs. \<exists>img. stbi_load env (fst r) = Some img \<and>
       (colorChannels img = 3 \<or> colorChannels img = 4) \<Longrightarrow>
   0 \<le> m_loadedTextures s \<Longrightarrow> m_loadedTextures s + int (length reqs) \<le> 16 \<Longrightarrow>
   \<exists>s'. CreateGLTexture_all env reqs s = Inr (replicate (length reqs) True, s') \<and>
     m_loadedTextures s' = m_loadedTextures s + int (length reqs)"
proof (induction reqs arbitrary: s)
  case Nil
  then show ?case by simp
next
  case (Cons r reqs)
  obtain filename tag' where r: "r = (filename, tag')" by (cases r)
  from Cons.prems r obtain img where img: "stbi_load env filename = Some img"
      "colorChannels img = 3 \<or> colorChannels img = 4" by auto
  from Cons.prems have cap: "0 \<le> m_loadedTextures s \<and> m_loadedTextures s < 16" by simp
  with CreateGLTexture_valid_image [OF img, of s tag']
  obtain s1 where one: "CreateGLTexture env filename tag' s = Inr (True, s1)" by auto
  from CreateGLTexture_success [OF one]
  have n1: "m_loadedTextures s1 = m_loadedTextures s + 1" by simp
  from Cons.IH [of s1] Cons.prems n1
  obtain s' where "CreateGLTexture_all env reqs s1 = Inr (replicate (length reqs) True, s')"
     "m_loadedTextures s' = m_loadedTextures s1 + int (length reqs)" by auto
  with one n1 r show ?case by simp
qed

lemma CreateGLTexture_all_snoc_error:
  "CreateGLTexture_all env reqs s = Inr (rets, s') \<Longrightarrow>
   CreateGLTexture env filename tag' s' = Inl e \<Longrightarrow>
   CreateGLTexture_all env (reqs @ [(filename, tag')]) s = Inl e"
  by (induction reqs arbitrary: s rets) (auto split: sum.splits prod.splits)

subsection \<open>The material loop\<close>

lemma FindMaterial_loop_absent:
  "(\<forall>j. index \<le> j \<and> j < length mats \<longrightarrow> OBJECT_MATERIAL.tag (mats ! j) \<noteq> tag') \<Longrightarrow>
   FindMaterial_loop mats tag' material index False = material"
proof (induction mats tag' material index "False" rule: FindMaterial_loop.induct)
  case (1 mats tag' material index)
  show ?case
  proof (cases "index < length mats")
    case False
    then show ?thesis
      by (simp add: FindMaterial_loop.simps [of mats tag' material index False])
  next
    case True
    with "1.prems" have ne: "OBJECT_MATERIAL.tag (mats ! index) \<noteq> tag'" by simp
    have "FindMaterial_loop mats tag' material (index + 1) False = material"
      using "1.hyps"(2) [OF _ ne] True "1.prems" by simp
    with True ne show ?thesis
      by (simp add: FindMaterial_loop.simps [of mats tag' material index False])
  qed
qed

lemma FindMaterial_loop_first:
  "index \<le> k \<Longrightarrow> k < length mats \<Longrightarrow> OBJECT_MATERIAL.tag (mats ! k) = tag' \<Longrightarrow>
   (\<forall>j. index \<le> j \<and> j < k \<longrightarrow> OBJECT_MATERIAL.tag (mats ! j) \<noteq> tag') \<Longrightarrow>
   FindMaterial_loop mats tag' material index False =
     material\<lparr> ambientColor := ambientColor (mats ! k),
               ambientStrength := ambientStrength (mats ! k),
               diffuseColor := diffuseColor (mats ! k),
               specularColor := specularColor (mats ! k),
               shininess := shininess (mats ! k) \<rparr>"
proof (induction mats tag' material index "False" rule: FindMaterial_loop.induct)
  case (1 mats tag' material index)
  from "1.prems" have lt: "index < length mats" by simp
  show ?case
  proof (cases "index = k")
    case True
    with "1.prems" have hit: "OBJECT_MATERIAL.tag (mats ! index) = tag'" by simp
    let ?m = "material\<lparr> ambientColor := ambientColor (mats ! index),
               ambientStrength := ambientStrength (mats ! index),
               diffuseColor := diffuseColor (mats ! index),
               specularColor := specularColor (mats ! index),
               shininess := shininess (mats ! index) \<rparr>"
    have "FindMaterial_loop mats tag' ?m index True = ?m"
      by (simp add: FindMaterial_loop.simps [of mats tag' ?m index True])
    with lt hit have "FindMaterial_loop mats tag' material index False = ?m"
      by (simp add: FindMaterial_loop.simps [of mats tag' material index False])
    then show ?thesis unfolding True .
  next
    case False
    with "1.prems" have ne: "OBJECT_MATERIAL.tag (mats ! index) \<noteq> tag'"
      and le: "index + 1 \<le> k" by auto
    from "1.hyps"(2) [OF _ ne] lt le "1.prems"
    have "FindMaterial_loop mats tag' material (index + 1) False =
       material\<lparr> ambientColor := ambientColor (mats ! k),
               ambientStrength := ambientStrength (mats ! k),
               diffuseColor := diffuseColor (mats ! k),
               specularColor := specularColor (mats ! k),
               shininess := shininess (mats ! k) \<rparr>" by simp
    with lt ne show ?thesis
      by (simp add: FindMaterial_loop.simps [of mats tag' material index False])
  qed
qed

subsection \<open>The matrix library at the identity\<close>

lemma glm_rotate_zero:
  "glm_rotate 0 (1, 0, 0) = mat4_identity"
  "glm_rotate 0 (0, 1, 0) = mat4_identity"
  "glm_rotate 0 (0, 0, 1) = mat4_identity"
  by (simp_all add: glm_rotate_def mat4_identity_def Let_def)

lemma glm_scale_one: "glm_scale (1, 1, 1) = mat4_identity"
  by (simp add: glm_scale_def mat4_identity_def)

lemma glm_translate_zero: "glm_translate (0, 0, 0) = mat4_identity"
  by (simp add: glm_translate_def mat4_identity_def)

lemma mat4_mul_identity: "mat4_mul mat4_identity mat4_identity = mat4_identity"
  by (simp add: mat4_identity_def)

text \<open>A quarter turn about the Y axis takes the +X axis to the -Z axis.\<close>

lemma glm_rotate_quarter_turn_y:
  "mat4_mul_vec4 (glm_rotate (glm_radians 90) (0, 1, 0)) (1, 0, 0, 0) = (0, 0, - 1, 0)"
  by (simp add: glm_rotate_def glm_radians_def mat4_identity_def Let_def)

subsection \<open>Evaluation on the concrete states\<close>

lemma replicate_16: "replicate 16 x = x # replicate 15 x"
  by (simp add: numeral_eq_Suc)

lemma CreateGLTexture_ground:
  "CreateGLTexture example_env ''textures/ground.jpg'' ''ground'' (SceneManager_init p) =
     Inr (True, ground_registered p 1)"
  by (simp add: CreateGLTexture_def example_env_def glGenTextures_def Let_def gl_issue_def
      CreateGLTexture_register_def slot_modify_def SceneManager_init_def ground_registered_def
      ground_calls_def empty_slot_def replicate_16)

lemma CreateGLTexture_ground_all_ones:
  "CreateGLTexture all_ones_env ''textures/ground.jpg'' ''ground'' (SceneManager_init p) =
     Inr (True, ground_registered p (- 1))"
  by (simp add: CreateGLTexture_def example_env_def all_ones_env_def glGenTextures_def Let_def
      gl_issue_def CreateGLTexture_register_def slot_modify_def SceneManager_init_def
      ground_registered_def ground_calls_def empty_slot_def replicate_16)

lemma CreateGLTexture_all_missing:
  "CreateGLTexture_all example_env [(''textures/missing.jpg'', ''missing'')] (SceneManager_init p) =
     Inr ([False], SceneManager_init p)"
  by (simp add: CreateGLTexture_def example_env_def)

lemma FindTextureSlot_ground:
  "FindTextureSlot (ground_registered p n) ''ground'' = Inr 0"
  by (simp add: FindTextureSlot_def ground_registered_def slot_read_def FindTextureSlot_loop_step)


section \<open>The claims\<close>

text \<open>
  C1. Registering a 17th texture when the filled-slot count already equals 16 must fail
  cleanly: return failure without appending and without writing outside the 16 slots.
  The source has no capacity check. Evaluated where every scene file decodes: the first
  16 calls of \<open>LoadSceneTextures\<close> succeed and leave the counter at 16, and its 17th call
  (\<open>salt1\<close>) does not return \<open>false\<close> but stores to \<open>m_textureIDs[16]\<close>, outside the array;
  so does \<open>LoadSceneTextures\<close> as a whole.
\<close>

theorem CreateGLTexture_seventeenth_out_of_bounds:
  "(\<exists>s16. CreateGLTexture_all example_env (butlast scene_textures) (SceneManager_init None) =
             Inr (replicate 16 True, s16) \<and>
          m_loadedTextures s16 = 16 \<and>
          CreateGLTexture example_env ''textures/salt1.jpg'' ''salt1'' s16 =
             Inl (ArrayOutOfBounds 16)) \<and>
   LoadSceneTextures example_env (SceneManager_init None) = Inl (ArrayOutOfBounds 16)"
proof -
  have dec: "\<forall>r \<in> set (butlast scene_textures).
      \<exists>img. stbi_load example_env (fst r) = Some img \<and>
        (colorChannels img = 3 \<or> colorChannels img = 4)"
    by (simp add: scene_textures_def example_env_def)
  have len: "length (butlast scene_textures) = 16"
    by (simp add: scene_textures_def)
  from CreateGLTexture_all_valid [OF dec, of "SceneManager_init None"] len
  obtain s16 where
    first: "CreateGLTexture_all example_env (butlast scene_textures) (SceneManager_init None) =
        Inr (replicate 16 True, s16)"
    and n: "m_loadedTextures s16 = 16"
    by (auto simp: SceneManager_init_def)
  have img: "stbi_load example_env ''textures/salt1.jpg'' =
      Some \<lparr> width = 64, height = 64, colorChannels = 3 \<rparr>"
    by (simp add: example_env_def)
  from CreateGLTexture_valid_image [OF img, of s16 "''salt1''"] n
  have last: "CreateGLTexture example_env ''textures/salt1.jpg'' ''salt1'' s16 =
      Inl (ArrayOutOfBounds 16)"
    by simp
  have split: "scene_textures = butlast scene_textures @ [(''textures/salt1.jpg'', ''salt1'')]"
    by (simp add: scene_textures_def)
  from CreateGLTexture_all_snoc_error [OF first last]
  have "CreateGLTexture_all example_env scene_textures (SceneManager_init None) =
      Inl (ArrayOutOfBounds 16)"
    using split by simp
  then have "LoadSceneTextures example_env (SceneManager_init None) = Inl (ArrayOutOfBounds 16)"
    by (simp add: LoadSceneTextures_def)
  with first n last show ?thesis by blast
qed

text \<open>
  C2. \<open>FindMaterial\<close> returns \<open>false\<close> only when the material list is empty: on every
  non-empty list it returns \<open>true\<close> for every tag, and when no entry carries the tag the
  caller's record is left as it was before the call.
\<close>

theorem FindMaterial_found_unless_empty:
  "fst (FindMaterial s tag' material) = (m_objectMaterials s \<noteq> []) \<and>
   ((\<forall>e \<in> set (m_objectMaterials s). OBJECT_MATERIAL.tag e \<noteq> tag') \<longrightarrow>
      snd (FindMaterial s tag' material) = material)"
proof -
  have "(\<forall>e \<in> set (m_objectMaterials s). OBJECT_MATERIAL.tag e \<noteq> tag') \<Longrightarrow>
      FindMaterial_loop (m_objectMaterials s) tag' material 0 False = material"
    by (rule FindMaterial_loop_absent) simp
  then show ?thesis by (simp add: FindMaterial_def)
qed

theorem FindMaterial_found_unless_empty_witness:
  "FindMaterial (push_back_material material_b (push_back_material material_a1
       (SceneManager_init None))) ''zinc'' material_stale = (True, material_stale) \<and>
   FindMaterial (SceneManager_init None) ''zinc'' material_stale = (False, material_stale)"
proof -
  let ?s = "push_back_material material_b (push_back_material material_a1
       (SceneManager_init None))"
  have mats: "m_objectMaterials ?s = [material_a1, material_b]"
    by (simp add: push_back_material_def SceneManager_init_def)
  have absent: "\<forall>e \<in> set (m_objectMaterials ?s). OBJECT_MATERIAL.tag e \<noteq> ''zinc''"
    unfolding mats by (simp add: material_a1_def material_b_def)
  from FindMaterial_found_unless_empty [of ?s "''zinc''" material_stale] absent mats
  have "fst (FindMaterial ?s ''zinc'' material_stale) = True"
    "snd (FindMaterial ?s ''zinc'' material_stale) = material_stale" by simp_all
  then have one: "FindMaterial ?s ''zinc'' material_stale = (True, material_stale)"
    by (simp add: prod_eq_iff)
  have two: "FindMaterial (SceneManager_init None) ''zinc'' material_stale =
      (False, material_stale)"
    by (simp add: FindMaterial_def SceneManager_init_def)
  from one two show ?thesis by simp
qed

text \<open>
  C3. At teardown every registered GPU texture object is released: a delete reaches the
  texture backend for each filled slot. The loop of \<open>DestroyGLTextures\<close> calls
  \<open>glGenTextures\<close> instead. Evaluated on the state with the one texture \<open>ground\<close> (name 1):
  the only call teardown adds to the backend's history is a request for a new name, which
  overwrites the handle in slot 0; the history holds no delete of texture 1.
\<close>

theorem DestroyGLTextures_requests_new_names:
  "DestroyGLTextures example_env (ground_registered None 1) =
     Inr ((ground_registered None 1)
            \<lparr> m_textureIDs := \<lparr> TEXTURE_INFO.tag = ''ground'', ID = 10 \<rparr> # replicate 15 empty_slot,
              gl_log := ground_calls 1 @ [GlGenTextures 10] \<rparr>) \<and>
   count_list (ground_calls 1 @ [GlGenTextures 10]) (GlDeleteTextures 1) = 0"
  by (simp add: DestroyGLTextures_def DestroyGLTextures_loop.simps ground_registered_def
      slot_modify_def glGenTextures_def Let_def gl_issue_def example_env_def ground_calls_def)

text \<open>
  C4. After any sequence of registrations on a freshly constructed scene manager:
  a file that decodes as a 3- or 4-channel image is registered successfully as long as
  fewer than 16 registrations have succeeded, and after every successful
  \<open>CreateGLTexture\<close> with tag \<open>t\<close>, \<open>FindTextureSlot t\<close> returns a non-negative index
  strictly less than the number of registrations that have returned \<open>true\<close> so far (the
  new one included).
\<close>

theorem CreateGLTexture_then_FindTextureSlot:
  assumes "CreateGLTexture_all env reqs (SceneManager_init p) = Inr (rets, s)"
  shows "(\<forall>img. stbi_load env filename = Some img \<and>
               (colorChannels img = 3 \<or> colorChannels img = 4) \<and>
               count_list rets True < 16 \<longrightarrow>
            (\<exists>s'. CreateGLTexture env filename tag' s = Inr (True, s'))) \<and>
         (\<forall>s'. CreateGLTexture env filename tag' s = Inr (True, s') \<longrightarrow>
            (\<exists>i. FindTextureSlot s' tag' = Inr i \<and> 0 \<le> i \<and>
                 i < int (count_list (rets @ [True]) True)))"
proof (intro conjI allI impI)
  from CreateGLTexture_all_count [OF assms]
  have n: "m_loadedTextures s = int (count_list rets True)"
    and len: "length (m_textureIDs s) = 16"
    by (simp_all add: SceneManager_init_def)
  {
    fix img
    assume valid: "stbi_load env filename = Some img \<and>
        (colorChannels img = 3 \<or> colorChannels img = 4) \<and> count_list rets True < 16"
    with n have "0 \<le> m_loadedTextures s \<and> m_loadedTextures s < 16" by simp
    with CreateGLTexture_valid_image [of env filename img s tag'] valid
    show "\<exists>s'. CreateGLTexture env filename tag' s = Inr (True, s')" by blast
  }
  {
    fix s'
    assume reg: "CreateGLTexture env filename tag' s = Inr (True, s')"
    from CreateGLTexture_success [OF reg] len
    have b: "0 \<le> m_loadedTextures s" "m_loadedTextures s < 16"
      "m_loadedTextures s' = m_loadedTextures s + 1"
      "TEXTURE_INFO.tag (m_textureIDs s' ! nat (m_loadedTextures s)) = tag'"
      by auto
    from FindTextureSlot_loop_present [of 0 "m_loadedTextures s" s' tag' "- 1"] b
    obtain i where "FindTextureSlot_loop s' tag' (- 1) 0 False = Inr i" "0 \<le> i"
      "i \<le> m_loadedTextures s"
      by auto
    with n show "\<exists>i. FindTextureSlot s' tag' = Inr i \<and> 0 \<le> i \<and>
        i < int (count_list (rets @ [True]) True)"
      by (auto simp: FindTextureSlot_def)
  }
qed

theorem CreateGLTexture_then_FindTextureSlot_witness:
  "CreateGLTexture_all example_env [(''textures/missing.jpg'', ''missing'')]
       (SceneManager_init None) = Inr ([False], SceneManager_init None) \<and>
   stbi_load example_env ''textures/ground.jpg'' =
       Some \<lparr> width = 64, height = 64, colorChannels = 3 \<rparr> \<and>
   count_list [False] True < 16 \<and>
   CreateGLTexture example_env ''textures/ground.jpg'' ''ground'' (SceneManager_init None) =
       Inr (True, ground_registered None 1) \<and>
   FindTextureSlot (ground_registered None 1) ''ground'' = Inr 0 \<and>
   (0 :: int) < int (count_list ([False] @ [True]) True)"
proof -
  note inst = CreateGLTexture_then_FindTextureSlot
      [OF CreateGLTexture_all_missing [of None], of "''textures/ground.jpg''" "''ground''"]
  have img: "stbi_load example_env ''textures/ground.jpg'' =
      Some \<lparr> width = 64, height = 64, colorChannels = 3 \<rparr>"
    by (simp add: example_env_def)
  have room: "count_list [False] True < 16" by simp
  from inst img room
  obtain s' where ok: "CreateGLTexture example_env ''textures/ground.jpg'' ''ground''
      (SceneManager_init None) = Inr (True, s')" by auto
  then have s': "s' = ground_registered None 1"
    by (simp add: CreateGLTexture_ground)
  from inst ok
  obtain i where "FindTextureSlot s' ''ground'' = Inr i" "0 \<le> i"
    "i < int (count_list ([False] @ [True]) True)" by blast
  then have "FindTextureSlot (ground_registered None 1) ''ground'' = Inr 0"
    "(0 :: int) < int (count_list ([False] @ [True]) True)"
    unfolding s' by simp_all
  with CreateGLTexture_all_missing [of None] img room ok s' show ?thesis by simp
qed

text \<open>
  C5. For every image that decodes with a channel count other than 3 or 4,
  \<open>CreateGLTexture\<close> returns \<open>false\<close> and leaves \<open>m_loadedTextures\<close> and every entry of
  \<open>m_textureIDs\<close> unchanged.
\<close>

theorem CreateGLTexture_unsupported_channels:
  assumes "stbi_load env filename = Some img"
      and "colorChannels img \<noteq> 3" and "colorChannels img \<noteq> 4"
  shows "\<exists>s'. CreateGLTexture env filename tag' s = Inr (False, s') \<and>
           m_loadedTextures s' = m_loadedTextures s \<and>
           m_textureIDs s' = m_textureIDs s"
  using assms by (simp add: CreateGLTexture_def glGenTextures_def Let_def gl_issue_def)

theorem CreateGLTexture_unsupported_channels_witness:
  "stbi_load example_env ''textures/gray2.png'' =
     Some \<lparr> width = 8, height = 8, colorChannels = 2 \<rparr> \<and>
   (\<exists>s'. CreateGLTexture example_env ''textures/gray2.png'' ''gray'' (ground_registered None 1) =
            Inr (False, s') \<and>
          m_loadedTextures s' = 1 \<and>
          m_textureIDs s' =
            \<lparr> TEXTURE_INFO.tag = ''ground'', ID = 1 \<rparr> # replicate 15 empty_slot)"
proof -
  have img: "stbi_load example_env ''textures/gray2.png'' =
      Some \<lparr> width = 8, height = 8, colorChannels = 2 \<rparr>"
    by (simp add: example_env_def)
  from CreateGLTexture_unsupported_channels
         [OF img, of "''gray''" "ground_registered None 1"]
  have "\<exists>s'. CreateGLTexture example_env ''textures/gray2.png'' ''gray''
            (ground_registered None 1) = Inr (False, s') \<and>
          m_loadedTextures s' = m_loadedTextures (ground_registered None 1) \<and>
          m_textureIDs s' = m_textureIDs (ground_registered None 1)"
    by simp
  with img show ?thesis by (simp add: ground_registered_def)
qed

text \<open>
  C6. On every registry state (counter within the capacity of 16) in which no filled
  slot carries the queried tag, \<open>FindTextureSlot\<close> returns the sentinel \<open>-1\<close>, as a normal
  return value.
\<close>

theorem FindTextureSlot_not_found:
  assumes "m_loadedTextures s \<le> 16"
      and "\<forall>j. 0 \<le> j \<and> j < m_loadedTextures s \<longrightarrow>
             TEXTURE_INFO.tag (m_textureIDs s ! nat j) \<noteq> tag'"
  shows "FindTextureSlot s tag' = Inr (- 1)"
  unfolding FindTextureSlot_def using assms
  by (intro FindTextureSlot_loop_absent) simp_all

theorem FindTextureSlot_not_found_witness:
  "m_loadedTextures (ground_registered None 1) \<le> 16 \<and>
   FindTextureSlot (ground_registered None 1) ''unregistered-tag'' = Inr (- 1)"
proof -
  have cap: "m_loadedTextures (ground_registered None 1) \<le> 16"
    by (simp add: ground_registered_def)
  have absent: "\<forall>j. 0 \<le> j \<and> j < m_loadedTextures (ground_registered None 1) \<longrightarrow>
      TEXTURE_INFO.tag (m_textureIDs (ground_registered None 1) ! nat j) \<noteq> ''unregistered-tag''"
  proof (intro allI impI)
    fix j :: int
    assume "0 \<le> j \<and> j < m_loadedTextures (ground_registered None 1)"
    then have "j = 0" by (simp add: ground_registered_def)
    then show "TEXTURE_INFO.tag (m_textureIDs (ground_registered None 1) ! nat j) \<noteq>
        ''unregistered-tag''"
      by (simp add: ground_registered_def)
  qed
  from FindTextureSlot_not_found [OF cap absent] cap show ?thesis by simp
qed

text \<open>
  C7. With a shader manager present, \<open>SetTransformations\<close> writes to the uniform
  \<open>model\<close> the matrix translation * rotateX * rotateY * rotateZ * scale, the angles
  converted from degrees to radians, for every scale, rotation and translation; for
  scale \<open>(1,1,1)\<close>, rotation \<open>(0,0,0)\<close> and translation \<open>(0,0,0)\<close> that matrix is the
  identity.
\<close>

theorem SetTransformations_model_matrix:
  "(m_pShaderManager s \<noteq> None \<longrightarrow>
      SetTransformations sc xdeg ydeg zdeg pos s =
        s\<lparr> shader_log := shader_log s @
              [SetMat4Value ''model'' (model_matrix_spec sc xdeg ydeg zdeg pos)] \<rparr>) \<and>
   model_matrix_spec (1, 1, 1) 0 0 0 (0, 0, 0) = mat4_identity"
  by (simp add: SetTransformations_def Let_def shader_issue_def g_ModelName_def
      model_matrix_spec_def glm_radians_def glm_rotate_zero glm_scale_one glm_translate_zero
      mat4_mul_identity)

theorem SetTransformations_model_matrix_witness:
  "m_pShaderManager (SceneManager_init (Some 0)) \<noteq> None \<and>
   SetTransformations (1, 1, 1) 0 0 0 (0, 0, 0) (SceneManager_init (Some 0)) =
     (SceneManager_init (Some 0))\<lparr> shader_log := [SetMat4Value ''model'' mat4_identity] \<rparr>"
  using SetTransformations_model_matrix [of "SceneManager_init (Some 0)" "(1, 1, 1)" 0 0 0 "(0, 0, 0)"]
  by (simp add: SceneManager_init_def)

text \<open>
  C8. Material lookup is first-match-wins: if an entry tagged \<open>t\<close> is preceded only by
  entries with other tags, \<open>FindMaterial t\<close> reports \<open>true\<close> and copies the five
  reflectance fields of that entry into the caller's record, whatever follows it in the
  list (later entries tagged \<open>t\<close> included). After registering \<open>a\<close>, \<open>b\<close> and a second \<open>a\<close>,
  the lookup of \<open>a\<close> yields the values of the first registration.
\<close>

theorem FindMaterial_first_match:
  assumes "m_objectMaterials s = pre @ e # post"
      and "OBJECT_MATERIAL.tag e = tag'"
      and "\<forall>x \<in> set pre. OBJECT_MATERIAL.tag x \<noteq> tag'"
  shows "FindMaterial s tag' material =
     (True, material\<lparr> ambientColor := ambientColor e,
                     ambientStrength := ambientStrength e,
                     diffuseColor := diffuseColor e,
                     specularColor := specularColor e,
                     shininess := shininess e \<rparr>)"
proof -
  let ?mats = "m_objectMaterials s"
  from assms(1) have k: "length pre < length ?mats" and at: "?mats ! length pre = e"
    by simp_all
  from assms(1,3)
  have before: "\<forall>j. 0 \<le> j \<and> j < length pre \<longrightarrow> OBJECT_MATERIAL.tag (?mats ! j) \<noteq> tag'"
    by (simp add: nth_append)
  from assms(2) at have hit: "OBJECT_MATERIAL.tag (?mats ! length pre) = tag'" by simp
  have "FindMaterial_loop ?mats tag' material 0 False =
     material\<lparr> ambientColor := ambientColor (?mats ! length pre),
               ambientStrength := ambientStrength (?mats ! length pre),
               diffuseColor := diffuseColor (?mats ! length pre),
               specularColor := specularColor (?mats ! length pre),
               shininess := shininess (?mats ! length pre) \<rparr>"
    by (rule FindMaterial_loop_first [OF _ k hit before]) simp
  moreover from k have "length ?mats \<noteq> 0" by auto
  ultimately show ?thesis unfolding FindMaterial_def at by simp
qed

theorem FindMaterial_first_match_witness:
  "FindMaterial
     (push_back_material material_a3 (push_back_material material_b
        (push_back_material material_a1 (SceneManager_init None))))
     ''a'' material_stale =
     (True, \<lparr> ambientColor = (1, 1, 1), ambientStrength = 1, diffuseColor = (1, 1, 1),
              specularColor = (1, 1, 1), shininess = 1, OBJECT_MATERIAL.tag = ''stale'' \<rparr>) \<and>
   shininess material_a1 = 1 \<and> shininess material_a3 = 3"
proof -
  let ?s = "push_back_material material_a3 (push_back_material material_b
        (push_back_material material_a1 (SceneManager_init None)))"
  have mats: "m_objectMaterials ?s = [] @ material_a1 # [material_b, material_a3]"
    by (simp add: push_back_material_def SceneManager_init_def)
  have t: "OBJECT_MATERIAL.tag material_a1 = ''a''" by (simp add: material_a1_def)
  have pre: "\<forall>x \<in> set []. OBJECT_MATERIAL.tag x \<noteq> ''a''" by simp
  from FindMaterial_first_match [OF mats t pre, of material_stale]
  show ?thesis by (simp add: material_a1_def material_a3_def material_stale_def)
qed

text \<open>
  C9 as stated: for every tag and every registry state, \<open>FindTextureSlot\<close> returns \<open>-1\<close>
  if and only if \<open>FindTextureID\<close> returns \<open>-1\<close>. This fails on a state whose matching slot
  holds the handle \<open>0xFFFFFFFF\<close>, the value the constructor puts into empty slots (the
  state \<open>CreateGLTexture\<close> produces when the backend hands out that name, see
  \<open>CreateGLTexture_ground_all_ones\<close>): \<open>FindTextureSlot\<close> returns the index 0 while
  \<open>FindTextureID\<close> returns \<open>-1\<close>.
\<close>

theorem FindTexture_agreement_counterexample:
  "\<not> (FindTextureSlot (ground_registered None (- 1)) ''ground'' = Inr (- 1) \<longleftrightarrow>
      FindTextureID (ground_registered None (- 1)) ''ground'' = Inr (- 1))"
proof -
  have slot: "FindTextureSlot (ground_registered None (- 1)) ''ground'' = Inr 0"
    by (rule FindTextureSlot_ground)
  have "FindTextureID (ground_registered None (- 1)) ''ground'' = Inr (- 1)"
    by (simp add: FindTextureID_by_slot slot) (simp add: ground_registered_def)
  with slot show ?thesis by simp
qed

text \<open>
  C9, amended. For every tag and every registry state the two functions find the same
  entry: they fail together; when \<open>FindTextureSlot\<close> returns \<open>-1\<close> so does
  \<open>FindTextureID\<close>; when \<open>FindTextureSlot\<close> returns another value \<open>i\<close>, then \<open>i\<close> is
  non-negative and \<open>FindTextureID\<close> returns the handle stored in slot \<open>i\<close>, read as a
  signed 32-bit integer; and \<open>FindTextureID\<close> returns \<open>-1\<close> only when \<open>FindTextureSlot\<close>
  returns \<open>-1\<close> or the slot it found holds the handle \<open>0xFFFFFFFF\<close>.
\<close>

theorem FindTextureID_FindTextureSlot_agree:
  "(FindTextureSlot s tag' = Inl e \<longleftrightarrow> FindTextureID s tag' = Inl e) \<and>
   (FindTextureSlot s tag' = Inr (- 1) \<longrightarrow> FindTextureID s tag' = Inr (- 1)) \<and>
   (\<forall>i. FindTextureSlot s tag' = Inr i \<and> i \<noteq> - 1 \<longrightarrow>
        0 \<le> i \<and> FindTextureID s tag' = Inr (sint (ID (m_textureIDs s ! nat i)))) \<and>
   (FindTextureID s tag' = Inr (- 1) \<longrightarrow>
        FindTextureSlot s tag' = Inr (- 1) \<or>
        (\<exists>i. FindTextureSlot s tag' = Inr i \<and> 0 \<le> i \<and> ID (m_textureIDs s ! nat i) = - 1))"
proof (cases "FindTextureSlot s tag'")
  case (Inl e')
  then show ?thesis by (simp add: FindTextureID_by_slot)
next
  case (Inr i)
  then have "FindTextureSlot_loop s tag' (- 1) 0 False = Inr i"
    by (simp add: FindTextureSlot_def)
  from FindTextureSlot_loop_range [OF _ this] have range: "i = - 1 \<or> 0 \<le> i" by auto
  show ?thesis
  proof (cases "i = - 1")
    case True
    with Inr show ?thesis by (simp add: FindTextureID_by_slot)
  next
    case False
    with range have "0 \<le> i" by simp
    with Inr False show ?thesis
      by (simp add: FindTextureID_by_slot sint_minus_one_iff)
  qed
qed

theorem FindTextureID_FindTextureSlot_agree_witness:
  "FindTextureSlot (ground_registered None 1) ''ground'' = Inr 0 \<and>
   FindTextureID (ground_registered None 1) ''ground'' = Inr 1 \<and>
   FindTextureSlot (ground_registered None 1) ''unregistered-tag'' = Inr (- 1) \<and>
   FindTextureID (ground_registered None 1) ''unregistered-tag'' = Inr (- 1) \<and>
   FindTextureID (ground_registered None (- 1)) ''ground'' = Inr (- 1) \<and>
   FindTextureSlot (ground_registered None (- 1)) ''ground'' = Inr 0 \<and>
   ID (m_textureIDs (ground_registered None (- 1)) ! nat 0) = - 1"
proof -
  have found: "FindTextureSlot (ground_registered None 1) ''ground'' = Inr 0"
    by (rule FindTextureSlot_ground)
  have missing: "FindTextureSlot (ground_registered None 1) ''unregistered-tag'' = Inr (- 1)"
    by (simp add: FindTextureSlot_def ground_registered_def slot_read_def
        FindTextureSlot_loop_step FindTextureSlot_loop_exit)
  have ones: "FindTextureSlot (ground_registered None (- 1)) ''ground'' = Inr 0"
    by (rule FindTextureSlot_ground)
  from FindTextureID_FindTextureSlot_agree [of "ground_registered None 1" "''ground''"] found
  have a: "FindTextureID (ground_registered None 1) ''ground'' = Inr 1"
    by simp (simp add: ground_registered_def)
  from FindTextureID_FindTextureSlot_agree [of "ground_registered None 1" "''unregistered-tag''"]
    missing
  have b: "FindTextureID (ground_registered None 1) ''unregistered-tag'' = Inr (- 1)"
    by simp
  from FindTextureID_FindTextureSlot_agree [of "ground_registered None (- 1)" "''ground''"] ones
  have c: "FindTextureID (ground_registered None (- 1)) ''ground'' = Inr (- 1)"
    by simp (simp add: ground_registered_def)
  have d: "ID (m_textureIDs (ground_registered None (- 1)) ! nat 0) = - 1"
    by (simp add: ground_registered_def)
  from found a missing b c ones d show ?thesis by simp
qed

text \<open>
  C10. When the shader-manager pointer is null, \<open>SetTransformations\<close>, \<open>SetShaderColor\<close>,
  \<open>SetShaderTexture\<close> and \<open>SetTextureUVScale\<close> return normally and leave the whole state
  as it was: no uniform write is recorded, and the texture-slot table, the
  loaded-texture count and the material list are unchanged.
\<close>

theorem setters_null_shader_manager:
  assumes "m_pShaderManager s = None"
  shows "SetTransformations scaleXYZ xdeg ydeg zdeg positionXYZ s = s \<and>
         SetShaderColor r g b a s = s \<and>
         SetShaderTexture textureTag s = Inr s \<and>
         SetTextureUVScale u v s = s"
  using assms
  by (simp add: SetTransformations_def SetShaderColor_def SetShaderTexture_def
      SetTextureUVScale_def Let_def)

theorem setters_null_shader_manager_witness:
  "m_pShaderManager (ground_registered None 1) = None \<and>
   SetTransformations (2, 3, 4) 90 45 30 (1, 2, 3) (ground_registered None 1) =
     ground_registered None 1 \<and>
   SetShaderColor 1 0 0 1 (ground_registered None 1) = ground_registered None 1 \<and>
   SetShaderTexture ''ground'' (ground_registered None 1) = Inr (ground_registered None 1) \<and>
   SetTextureUVScale 2 2 (ground_registered None 1) = ground_registered None 1"
proof -
  have null: "m_pShaderManager (ground_registered None 1) = None"
    by (simp add: ground_registered_def)
  from setters_null_shader_manager [OF null] null show ?thesis by simp
qed

end
